theory Spec2Isabelle
  imports Complex_Main
begin

section \<open>Data model\<close>

text \<open>
  The evaluator of \<^verbatim>\<open>src/eval.py\<close> (class \<^verbatim>\<open>LicensePlateEvaluator\<close>) works on
  boxes, integer class labels and counters. A box is a sequence read only at the indices
  0 to 3, \<^verbatim>\<open>(x1, y1, x2, y2)\<close>. Coordinates and IoU values are Python numbers; they are
  modelled as exact rationals, so the rounding of floating-point arithmetic is not part of
  the model. Counters are Python's unbounded integers.
\<close>

record box =
  x1 :: rat
  y1 :: rat
  x2 :: rat
  y2 :: rat

text \<open>The exceptions the modelled code can raise.\<close>

datatype py_error = ZeroDivisionError | TypeError | IndexError | ValueError

text \<open>
  The dictionary \<^verbatim>\<open>{'tp': tp, 'fp': fp, 'fn': fn}\<close> returned by the matchers. The same
  record holds the local variables \<^verbatim>\<open>tp, fp, fn\<close> while a matcher runs.
\<close>

record counts =
  tp :: int
  fp :: int
  fn :: int

section \<open>Geometry kernel: \<^verbatim>\<open>bbox_iou\<close>\<close>

definition inter_area :: "box \<Rightarrow> box \<Rightarrow> rat" where
  "inter_area box1 box2 =
     (let inter_x1 = max (x1 box1) (x1 box2);
          inter_y1 = max (y1 box1) (y1 box2);
          inter_x2 = min (x2 box1) (x2 box2);
          inter_y2 = min (y2 box1) (y2 box2)
      in max (inter_x2 - inter_x1) 0 * max (inter_y2 - inter_y1) 0)"

definition box_area :: "box \<Rightarrow> rat" where
  "box_area b = (x2 b - x1 b) * (y2 b - y1 b)"

definition union_area :: "box \<Rightarrow> box \<Rightarrow> rat" where
  "union_area box1 box2 = box_area box1 + box_area box2 - inter_area box1 box2"

text \<open>
  Line 26: \<^verbatim>\<open>return inter_area / union if union != 0 else 0\<close>. The division is
  evaluated only under the guard, where HOL's division and Python's agree.
\<close>

definition bbox_iou :: "box \<Rightarrow> box \<Rightarrow> rat" where
  "bbox_iou box1 box2 =
     (let union = union_area box1 box2
      in if union \<noteq> 0 then inter_area box1 box2 / union else 0)"

text \<open>
  Python's \<^verbatim>\<open>/\<close> raises on a zero divisor. \<open>bbox_iou_checked\<close> is the same body
  with that division, so that the absence of the exception is a statement about the model.
\<close>

definition py_truediv :: "rat \<Rightarrow> rat \<Rightarrow> py_error + rat" where
  "py_truediv a b = (if b = 0 then Inl ZeroDivisionError else Inr (a / b))"

definition bbox_iou_checked :: "box \<Rightarrow> box \<Rightarrow> py_error + rat" where
  "bbox_iou_checked box1 box2 =
     (let union = union_area box1 box2
      in if union \<noteq> 0 then py_truediv (inter_area box1 box2) union else Inr 0)"


section \<open>Greedy matcher\<close>

text \<open>
  The inner loop shared by the three matchers (lines 104 to 110, 126 to 132 and 147 to 153):
  \<^verbatim>\<open>best_iou = 0\<close>, \<^verbatim>\<open>best_match_idx = None\<close>, and an update on a strictly larger IoU
  only. The index is \<open>None\<close> (Python's sentinel) or \<open>Some idx\<close>.
\<close>

fun best_match_loop :: "box \<Rightarrow> (nat \<times> box) list \<Rightarrow> rat \<times> nat option \<Rightarrow> rat \<times> nat option" where
  "best_match_loop pred_box [] best = best"
| "best_match_loop pred_box ((idx, gt_box) # rest) (best_iou, best_match_idx) =
     (let iou = bbox_iou pred_box gt_box
      in if iou > best_iou then best_match_loop pred_box rest (iou, Some idx)
         else best_match_loop pred_box rest (best_iou, best_match_idx))"

definition best_match :: "box \<Rightarrow> box list \<Rightarrow> rat \<times> nat option" where
  "best_match pred_box gt_boxes = best_match_loop pred_box (enumerate 0 gt_boxes) (0, None)"

subsection \<open>Detection mode: \<^verbatim>\<open>match_boxes\<close>\<close>

text \<open>
  The state of the loop over the predictions is the counters and the Python set
  \<^verbatim>\<open>matched_indices\<close>, which can hold \<open>None\<close> as well as indices. One iteration
  (lines 104 to 118):
\<close>

definition match_boxes_step ::
  "rat \<Rightarrow> box list \<Rightarrow> counts \<times> nat option set \<Rightarrow> box \<Rightarrow> counts \<times> nat option set" where
  "match_boxes_step iou_threshold gt_boxes s pred_box =
     (case s of (c, matched_indices) \<Rightarrow>
      case best_match pred_box gt_boxes of (best_iou, best_match_idx) \<Rightarrow>
        if best_iou \<ge> iou_threshold then
          if best_match_idx \<notin> matched_indices
          then (c\<lparr>tp := tp c + 1\<rparr>, insert best_match_idx matched_indices)
          else (c\<lparr>fp := fp c + 1\<rparr>, matched_indices)
        else (c\<lparr>fp := fp c + 1\<rparr>, matched_indices))"

definition match_boxes_loop ::
  "rat \<Rightarrow> box list \<Rightarrow> box list \<Rightarrow> counts \<times> nat option set" where
  "match_boxes_loop iou_threshold gt_boxes pred_boxes =
     foldl (match_boxes_step iou_threshold gt_boxes) (\<lparr>tp = 0, fp = 0, fn = 0\<rparr>, {}) pred_boxes"

definition match_boxes :: "rat \<Rightarrow> box list \<Rightarrow> box list \<Rightarrow> counts" where
  "match_boxes iou_threshold gt_boxes pred_boxes =
     (case match_boxes_loop iou_threshold gt_boxes pred_boxes of (c, matched_indices) \<Rightarrow>
        c\<lparr>fn := int (length gt_boxes) - int (card matched_indices)\<rparr>)"

subsection \<open>Classification mode: \<^verbatim>\<open>match_classification\<close>\<close>

text \<open>
  \<^verbatim>\<open>gt_labels[best_match_idx]\<close>: a list indexed by \<open>None\<close> raises TypeError, by an
  index past the end IndexError.
\<close>

definition label_at :: "int list \<Rightarrow> nat option \<Rightarrow> py_error + int" where
  "label_at gt_labels best_match_idx =
     (case best_match_idx of
        None \<Rightarrow> Inl TypeError
      | Some idx \<Rightarrow> if idx < length gt_labels then Inr (gt_labels ! idx) else Inl IndexError)"

text \<open>A loop whose body can raise: the first exception ends it.\<close>

fun fold_err :: "('s \<Rightarrow> 'a \<Rightarrow> py_error + 's) \<Rightarrow> 's \<Rightarrow> 'a list \<Rightarrow> py_error + 's" where
  "fold_err f s [] = Inr s"
| "fold_err f s (x # xs) = (case f s x of Inl e \<Rightarrow> Inl e | Inr s' \<Rightarrow> fold_err f s' xs)"

text \<open>
  One iteration of lines 125 to 140. The inner loop runs over
  \<^verbatim>\<open>enumerate(zip(gt_boxes, gt_labels))\<close> and reads the boxes only.
\<close>

definition match_classification_step ::
  "rat \<Rightarrow> box list \<Rightarrow> int list \<Rightarrow> counts \<times> nat option set \<Rightarrow> box \<times> int
     \<Rightarrow> py_error + counts \<times> nat option set" where
  "match_classification_step iou_threshold gt_boxes gt_labels s p =
     (case s of (c, matched_indices) \<Rightarrow>
      case p of (pred_box, pred_label) \<Rightarrow>
      case best_match pred_box (map fst (zip gt_boxes gt_labels)) of (best_iou, best_match_idx) \<Rightarrow>
        if best_iou \<ge> iou_threshold \<and> best_match_idx \<notin> matched_indices then
          (case label_at gt_labels best_match_idx of
             Inl e \<Rightarrow> Inl e
           | Inr gt_label \<Rightarrow>
               Inr (if pred_label = gt_label then c\<lparr>tp := tp c + 1\<rparr> else c\<lparr>fp := fp c + 1\<rparr>,
                    insert best_match_idx matched_indices))
        else Inr (c\<lparr>fp := fp c + 1\<rparr>, matched_indices))"

definition match_classification ::
  "rat \<Rightarrow> box list \<Rightarrow> int list \<Rightarrow> box list \<Rightarrow> int list \<Rightarrow> py_error + counts" where
  "match_classification iou_threshold gt_boxes gt_labels pred_boxes pred_labels =
     (case fold_err (match_classification_step iou_threshold gt_boxes gt_labels)
             (\<lparr>tp = 0, fp = 0, fn = 0\<rparr>, {}) (zip pred_boxes pred_labels) of
        Inl e \<Rightarrow> Inl e
      | Inr (c, matched_indices) \<Rightarrow> Inr (c\<lparr>fn := int (length gt_labels) - tp c\<rparr>))"

subsection \<open>Conditioned pair collector: \<^verbatim>\<open>match_classification_detected_only\<close>\<close>

text \<open>
  The method appends to \<^verbatim>\<open>self.y_true\<close> and \<^verbatim>\<open>self.y_pred\<close> and returns 0; the model
  takes the two buffers and returns them extended.
\<close>

definition detected_only_step ::
  "rat \<Rightarrow> box list \<Rightarrow> int list \<Rightarrow> int list \<times> int list \<times> nat option set \<Rightarrow> box \<times> int
     \<Rightarrow> py_error + int list \<times> int list \<times> nat option set" where
  "detected_only_step iou_threshold gt_boxes gt_labels s p =
     (case s of (y_true, y_pred, matched_indices) \<Rightarrow>
      case p of (pred_box, pred_label) \<Rightarrow>
      case best_match pred_box (map fst (zip gt_boxes gt_labels)) of (best_iou, best_match_idx) \<Rightarrow>
        if best_iou \<ge> iou_threshold \<and> best_match_idx \<notin> matched_indices then
          (case label_at gt_labels best_match_idx of
             Inl e \<Rightarrow> Inl e
           | Inr gt_label \<Rightarrow>
               Inr (y_true @ [gt_label], y_pred @ [pred_label],
                    insert best_match_idx matched_indices))
        else Inr (y_true, y_pred, matched_indices))"

definition match_classification_detected_only ::
  "rat \<Rightarrow> box list \<Rightarrow> int list \<Rightarrow> box list \<Rightarrow> int list \<Rightarrow> int list \<times> int list
     \<Rightarrow> py_error + int list \<times> int list" where
  "match_classification_detected_only iou_threshold gt_boxes gt_labels pred_boxes pred_labels buf =
     (case fold_err (detected_only_step iou_threshold gt_boxes gt_labels)
             (fst buf, snd buf, {}) (zip pred_boxes pred_labels) of
        Inl e \<Rightarrow> Inl e
      | Inr (y_true, y_pred, matched_indices) \<Rightarrow> Inr (y_true, y_pred))"

section \<open>Cascade evaluator: \<^verbatim>\<open>evaluate_predictions\<close>\<close>

text \<open>
  The two prediction tables are data frames read row by row: a row of
  \<^verbatim>\<open>localization_data\<close> has an image filename and a box, a row of
  \<^verbatim>\<open>character_data\<close> an image filename, a box and a predicted class. The lookups of
  lines 60, 67 and 74 keep the rows of one filename, in table order.
\<close>

type_synonym localization_table = "(string \<times> box) list"
type_synonym character_table = "(string \<times> box \<times> int) list"

definition plate_predictions :: "localization_table \<Rightarrow> string \<Rightarrow> box list" where
  "plate_predictions localization_data img_filename =
     map snd (filter (\<lambda>row. fst row = img_filename) localization_data)"

definition char_predictions :: "character_table \<Rightarrow> string \<Rightarrow> box list" where
  "char_predictions character_data img_filename =
     map (\<lambda>row. fst (snd row)) (filter (\<lambda>row. fst row = img_filename) character_data)"

definition char_predicted_classes :: "character_table \<Rightarrow> string \<Rightarrow> int list" where
  "char_predicted_classes character_data img_filename =
     map (\<lambda>row. snd (snd row)) (filter (\<lambda>row. fst row = img_filename) character_data)"

text \<open>Lines 47 to 57: label 0 is a plate, any other label \<open>l\<close> a character of class \<open>l - 1\<close>.\<close>

fun split_loop ::
  "(box \<times> int) list \<Rightarrow> box list \<times> box list \<times> int list \<Rightarrow> box list \<times> box list \<times> int list" where
  "split_loop [] acc = acc"
| "split_loop ((b, l) # rest) (plate_boxes, char_boxes, char_labels) =
     (if l = 0 then split_loop rest (plate_boxes @ [b], char_boxes, char_labels)
      else split_loop rest (plate_boxes, char_boxes @ [b], char_labels @ [l - 1]))"

definition split_entities :: "box list \<Rightarrow> int list \<Rightarrow> box list \<times> box list \<times> int list" where
  "split_entities box label = split_loop (zip box label) ([], [], [])"

text \<open>
  The running counters (local variables of \<^verbatim>\<open>evaluate_predictions\<close>) and the confusion
  buffer (\<^verbatim>\<open>self.y_true\<close>, \<^verbatim>\<open>self.y_pred\<close>).
\<close>

record eval_state =
  tp_plate :: int
  fp_plate :: int
  fn_plate :: int
  tp_seg :: int
  fp_seg :: int
  fn_seg :: int
  tp_class :: int
  fp_class :: int
  fn_class :: int
  tp_seg_only :: int
  fp_seg_only :: int
  fn_seg_only :: int
  y_true :: "int list"
  y_pred :: "int list"

definition initial_state :: eval_state where
  "initial_state =
     \<lparr>tp_plate = 0, fp_plate = 0, fn_plate = 0, tp_seg = 0, fp_seg = 0, fn_seg = 0,
      tp_class = 0, fp_class = 0, fn_class = 0,
      tp_seg_only = 0, fp_seg_only = 0, fn_seg_only = 0, y_true = [], y_pred = []\<rparr>"

text \<open>
  The body of the inner loop, lines 46 to 84, for one image
  \<^verbatim>\<open>(img, box, label, img_filename)\<close>. An exception of a matcher leaves the method.
\<close>

definition process_image ::
  "rat \<Rightarrow> localization_table \<Rightarrow> character_table \<Rightarrow> eval_state
     \<Rightarrow> 'i \<times> box list \<times> int list \<times> string \<Rightarrow> py_error + eval_state" where
  "process_image iou_threshold localization_data character_data st item =
     (case item of (img, box, label, img_filename) \<Rightarrow>
      case split_entities box label of (plate_boxes, char_boxes, char_labels) \<Rightarrow>
      let pred_boxes_plate = plate_predictions localization_data img_filename;
          matched_plate = match_boxes iou_threshold plate_boxes pred_boxes_plate;
          st = st\<lparr>tp_plate := tp_plate st + tp matched_plate,
                  fp_plate := fp_plate st + fp matched_plate,
                  fn_plate := fn_plate st + fn matched_plate\<rparr>;
          pred_boxes_char = char_predictions character_data img_filename;
          matched_char = match_boxes iou_threshold char_boxes pred_boxes_char;
          st = st\<lparr>tp_seg := tp_seg st + tp matched_char,
                  fp_seg := fp_seg st + fp matched_char,
                  fn_seg := fn_seg st + fn matched_char\<rparr>;
          pred_labels_char = char_predicted_classes character_data img_filename
      in case match_classification iou_threshold char_boxes char_labels
                pred_boxes_char pred_labels_char of
           Inl e \<Rightarrow> Inl e
         | Inr matched_class \<Rightarrow>
             let st = st\<lparr>tp_class := tp_class st + tp matched_class,
                         fp_class := fp_class st + fp matched_class,
                         fn_class := fn_class st + fn matched_class\<rparr>
             in if tp matched_plate = 1 then
                  let st = st\<lparr>tp_seg_only := tp_seg_only st + tp matched_char,
                              fp_seg_only := fp_seg_only st + fp matched_char,
                              fn_seg_only := fn_seg_only st + fn matched_char\<rparr>
                  in case match_classification_detected_only iou_threshold char_boxes char_labels
                            pred_boxes_char pred_labels_char (y_true st, y_pred st) of
                       Inl e \<Rightarrow> Inl e
                     | Inr (yt, yp) \<Rightarrow> Inr (st\<lparr>y_true := yt, y_pred := yp\<rparr>)
                else Inr st)"

text \<open>
  The data loader yields batches \<^verbatim>\<open>(images, boxes, labels, img_filenames)\<close>; line 45
  zips the four sequences of a batch. The image data is not read.
\<close>

type_synonym 'i batch = "'i list \<times> box list list \<times> int list list \<times> string list"

definition batch_items :: "'i batch \<Rightarrow> ('i \<times> box list \<times> int list \<times> string) list" where
  "batch_items batch =
     (case batch of (images, boxes, labels, img_filenames) \<Rightarrow>
        zip images (zip boxes (zip labels img_filenames)))"

definition evaluate_images ::
  "rat \<Rightarrow> localization_table \<Rightarrow> character_table \<Rightarrow> eval_state
     \<Rightarrow> ('i \<times> box list \<times> int list \<times> string) list \<Rightarrow> py_error + eval_state" where
  "evaluate_images iou_threshold localization_data character_data st items =
     fold_err (process_image iou_threshold localization_data character_data) st items"

definition evaluate_loop ::
  "rat \<Rightarrow> localization_table \<Rightarrow> character_table \<Rightarrow> eval_state \<Rightarrow> 'i batch list
     \<Rightarrow> py_error + eval_state" where
  "evaluate_loop iou_threshold localization_data character_data st data_loader =
     fold_err (\<lambda>st batch. evaluate_images iou_threshold localization_data character_data st
                 (batch_items batch)) st data_loader"







section \<open>Confusion accumulator and metrics\<close>

text \<open>
  Modelled from the spec: \<^verbatim>\<open>confusion_matrix\<close> is imported from scikit-learn and is not
  under src/. Row = true label, column = predicted label, over the sorted distinct labels
  that occur in either list; entry \<open>(t, p)\<close> counts the pairs \<open>(t, p)\<close>. Lists of different
  lengths are rejected with ValueError.
\<close>

definition unique_labels :: "int list \<Rightarrow> int list \<Rightarrow> int list" where
  "unique_labels yt yp = sort (remdups (yt @ yp))"

definition confusion_matrix :: "int list \<Rightarrow> int list \<Rightarrow> py_error + int list list" where
  "confusion_matrix yt yp =
     (if length yt \<noteq> length yp then Inl ValueError
      else let labels = unique_labels yt yp
           in Inr (map (\<lambda>t. map (\<lambda>p. int (length (filter (\<lambda>pair. pair = (t, p)) (zip yt yp))))
                              labels) labels))"

text \<open>
  Modelled from the spec: the numpy operations on the (square) matrix, not under src/:
  \<^verbatim>\<open>np.diag\<close>, \<^verbatim>\<open>np.sum(cm, axis=0)\<close> (column sums), \<^verbatim>\<open>np.sum(cm, axis=1)\<close> (row sums) and
  the element-wise difference of two vectors.
\<close>

definition np_diag :: "int list list \<Rightarrow> int list" where
  "np_diag cm = map (\<lambda>i. cm ! i ! i) [0..<length cm]"

definition np_sum_axis0 :: "int list list \<Rightarrow> int list" where
  "np_sum_axis0 cm = map (\<lambda>j. sum_list (map (\<lambda>row. row ! j) cm)) [0..<length cm]"

definition np_sum_axis1 :: "int list list \<Rightarrow> int list" where
  "np_sum_axis1 cm = map sum_list cm"

definition np_sub :: "int list \<Rightarrow> int list \<Rightarrow> int list" where
  "np_sub xs ys = map (\<lambda>(x, y). x - y) (zip xs ys)"

text \<open>Lines 169 to 181, on the buffers \<^verbatim>\<open>self.y_true\<close> and \<^verbatim>\<open>self.y_pred\<close>.\<close>

definition get_classification_confusion_matrix ::
  "int list \<Rightarrow> int list \<Rightarrow> py_error + int \<times> int \<times> int" where
  "get_classification_confusion_matrix yt yp =
     (case confusion_matrix yt yp of
        Inl e \<Rightarrow> Inl e
      | Inr cm \<Rightarrow>
          let tp_cls_only = np_diag cm;
              fp_cls_only = np_sub (np_sum_axis0 cm) tp_cls_only;
              fn_cls_only = np_sub (np_sum_axis1 cm) tp_cls_only;
              total_FP = sum_list fp_cls_only;
              total_FN = sum_list fn_cls_only;
              total_TP = sum_list tp_cls_only
          in Inr (total_TP, total_FP, total_FN))"

text \<open>Lines 162 to 167, without the printed line.\<close>

record metrics =
  precision :: rat
  recall :: rat
  f1_score :: rat

definition print_evaluation_results :: "int \<Rightarrow> int \<Rightarrow> int \<Rightarrow> metrics" where
  "print_evaluation_results tp' fp' fn' =
     (let precision' = (if tp' + fp' > 0 then of_int tp' / of_int (tp' + fp') else 0);
          recall' = (if tp' + fn' > 0 then of_int tp' / of_int (tp' + fn') else 0);
          f1_score' = (if precision' + recall' > 0
                       then 2 * (precision' * recall') / (precision' + recall') else 0)
      in \<lparr>precision = precision', recall = recall', f1_score = f1_score'\<rparr>)"

record results =
  license_plate :: metrics
  segmentation :: metrics
  classification :: metrics
  segmentation_only :: metrics
  classification_only :: metrics

text \<open>The whole method, on an evaluator whose buffers are still empty.\<close>

definition evaluate_predictions ::
  "rat \<Rightarrow> localization_table \<Rightarrow> character_table \<Rightarrow> 'i batch list \<Rightarrow> py_error + results" where
  "evaluate_predictions iou_threshold localization_data character_data data_loader =
     (case evaluate_loop iou_threshold localization_data character_data initial_state data_loader of
        Inl e \<Rightarrow> Inl e
      | Inr st \<Rightarrow>
          (case get_classification_confusion_matrix (y_true st) (y_pred st) of
             Inl e \<Rightarrow> Inl e
           | Inr (tp_cls_only, fp_cls_only, fn_cls_only) \<Rightarrow>
               Inr \<lparr>license_plate =
                      print_evaluation_results (tp_plate st) (fp_plate st) (fn_plate st),
                    segmentation = print_evaluation_results (tp_seg st) (fp_seg st) (fn_seg st),
                    classification =
                      print_evaluation_results (tp_class st) (fp_class st) (fn_class st),
                    segmentation_only =
                      print_evaluation_results (tp_seg_only st) (fp_seg_only st) (fn_seg_only st),
                    classification_only =
                      print_evaluation_results tp_cls_only fp_cls_only fn_cls_only\<rparr>))"

section \<open>Notions used in the statements\<close>

text \<open>
  The loop invariant of \<^verbatim>\<open>match_boxes\<close> under a positive threshold: the claimed set is a
  finite set of indices of the ground-truth list, without \<open>None\<close>, and \<open>tp\<close> is its size.
\<close>

definition match_inv :: "nat \<Rightarrow> counts \<times> nat option set \<Rightarrow> bool" where
  "match_inv G s \<longleftrightarrow>
     finite (snd s) \<and> snd s \<subseteq> Some ` {..<G} \<and> tp (fst s) = int (card (snd s))"









text \<open>The entry of the confusion matrix at row \<open>t\<close> and column \<open>p\<close>, and the matrix over given labels.\<close>

definition pair_count :: "(int \<times> int) list \<Rightarrow> int \<Rightarrow> int \<Rightarrow> int" where
  "pair_count ps t p = int (length (filter (\<lambda>pair. pair = (t, p)) ps))"

definition count_matrix :: "int list \<Rightarrow> (int \<times> int) list \<Rightarrow> int list list" where
  "count_matrix ls ps = map (\<lambda>t. map (\<lambda>p. pair_count ps t p) ls) ls"

section \<open>Properties of the geometry kernel\<close>









lemma bbox_iou_checked_eq: "bbox_iou_checked a b = Inr (bbox_iou a b)"
  by (simp add: bbox_iou_checked_def bbox_iou_def py_truediv_def Let_def)



text \<open>
  C8. When the union area is zero the IoU is 0, and the division never raises: the
  checked function returns a value (the one of \<open>bbox_iou\<close>) on every pair of boxes, so
  the dividing branch is not taken with a zero divisor.
\<close>

theorem bbox_iou_zero_union_safe:
  "(union_area A B = 0 \<longrightarrow> bbox_iou_checked A B = Inr 0)
   \<and> bbox_iou_checked A B \<noteq> Inl ZeroDivisionError
   \<and> bbox_iou_checked A B = Inr (bbox_iou A B)"
  by (simp add: bbox_iou_checked_def bbox_iou_def py_truediv_def Let_def)

theorem bbox_iou_zero_union_safe_witness:
  "union_area \<lparr>x1 = 3, y1 = 4, x2 = 3, y2 = 4\<rparr> \<lparr>x1 = 3, y1 = 4, x2 = 3, y2 = 4\<rparr> = 0
   \<and> bbox_iou_checked \<lparr>x1 = 3, y1 = 4, x2 = 3, y2 = 4\<rparr> \<lparr>x1 = 3, y1 = 4, x2 = 3, y2 = 4\<rparr> = Inr 0"
proof -
  have u: "union_area \<lparr>x1 = 3, y1 = 4, x2 = 3, y2 = 4\<rparr> \<lparr>x1 = 3, y1 = 4, x2 = 3, y2 = 4\<rparr> = 0"
    by (simp add: union_area_def box_area_def inter_area_def Let_def)
  show ?thesis
    using bbox_iou_zero_union_safe
            [of "\<lparr>x1 = 3, y1 = 4, x2 = 3, y2 = 4\<rparr>" "\<lparr>x1 = 3, y1 = 4, x2 = 3, y2 = 4\<rparr>"] u
    by simp
qed

section \<open>Properties of the inner loop\<close>

text \<open>
  The inner loop either leaves the start values untouched or ends on an index of the list
  with a strictly larger IoU.
\<close>

lemma best_match_loop_cases:
  "best_match_loop p (enumerate n gts) (b0, i0) = (b, i) \<Longrightarrow>
     (b = b0 \<and> i = i0) \<or> (\<exists>j. i = Some j \<and> n \<le> j \<and> j < n + length gts \<and> b0 < b)"
proof (induction gts arbitrary: n b0 i0)
  case Nil
  then show ?case by simp
next
  case (Cons g gts)
  show ?case
  proof (cases "bbox_iou p g > b0")
    case True
    with Cons.prems
    have "best_match_loop p (enumerate (Suc n) gts) (bbox_iou p g, Some n) = (b, i)"
      by (simp add: Let_def)
    from Cons.IH [OF this] True show ?thesis by auto
  next
    case False
    with Cons.prems have "best_match_loop p (enumerate (Suc n) gts) (b0, i0) = (b, i)"
      by (simp add: Let_def)
    from Cons.IH [OF this] show ?thesis by auto
  qed
qed

lemma best_match_cases:
  "best_match p gts = (b, i) \<Longrightarrow>
     (b = 0 \<and> i = None) \<or> (\<exists>j. i = Some j \<and> j < length gts \<and> 0 < b)"
  unfolding best_match_def using best_match_loop_cases [of p 0 gts 0 None b i] by simp

section \<open>Properties of the detection-mode matcher\<close>

lemma match_boxes_step_inv:
  assumes "0 < thr" "match_inv (length gts) s"
  shows "match_inv (length gts) (match_boxes_step thr gts s p)"
proof -
  obtain c m where s: "s = (c, m)" by (cases s)
  obtain b i where bm: "best_match p gts = (b, i)" by (cases "best_match p gts")
  from best_match_cases [OF bm] assms(1)
  have idx: "thr \<le> b \<Longrightarrow> \<exists>j. i = Some j \<and> j < length gts" by auto
  show ?thesis
    using assms(2) idx unfolding match_inv_def s match_boxes_step_def bm
    by auto
qed

lemma foldl_inv:
  "P s \<Longrightarrow> (\<And>s x. P s \<Longrightarrow> P (f s x)) \<Longrightarrow> P (foldl f s xs)"
  by (induction xs arbitrary: s) auto

lemma match_boxes_loop_inv:
  assumes "0 < thr"
  shows "match_inv (length gts) (match_boxes_loop thr gts preds)"
  unfolding match_boxes_loop_def
  by (rule foldl_inv)
     (simp_all add: match_inv_def match_boxes_step_inv [OF assms, unfolded match_inv_def])

lemma card_matched_le:
  assumes "match_inv G s"
  shows "card (snd s) \<le> G"
proof -
  from assms have "snd s \<subseteq> Some ` {..<G}" by (simp add: match_inv_def)
  then have "card (snd s) \<le> card (Some ` {..<G})" by (intro card_mono) simp_all
  also have "\<dots> \<le> G" using card_image_le [of "{..<G}" Some] by simp
  finally show ?thesis .
qed

text \<open>Every prediction is counted once, as a true or a false positive, whatever the threshold.\<close>

lemma match_boxes_step_total:
  "tp (fst (match_boxes_step thr gts s p)) + fp (fst (match_boxes_step thr gts s p))
     = tp (fst s) + fp (fst s) + 1"
  by (cases s; cases "best_match p gts") (simp add: match_boxes_step_def)

lemma match_boxes_fold_total:
  "tp (fst (foldl (match_boxes_step thr gts) s preds))
     + fp (fst (foldl (match_boxes_step thr gts) s preds))
     = tp (fst s) + fp (fst s) + int (length preds)"
  by (induction preds arbitrary: s) (simp_all add: match_boxes_step_total)

lemma match_boxes_step_nonneg:
  "0 \<le> tp (fst s) \<and> 0 \<le> fp (fst s) \<Longrightarrow>
     0 \<le> tp (fst (match_boxes_step thr gts s p)) \<and> 0 \<le> fp (fst (match_boxes_step thr gts s p))"
  by (cases s; cases "best_match p gts") (simp add: match_boxes_step_def)

lemma match_boxes_fp_total:
  "tp (match_boxes thr gts preds) + fp (match_boxes thr gts preds) = int (length preds)"
  using match_boxes_fold_total [of thr gts "(\<lparr>tp = 0, fp = 0, fn = 0\<rparr>, {})" preds]
  by (simp add: match_boxes_def match_boxes_loop_def case_prod_beta)

lemma match_boxes_no_predictions:
  "match_boxes thr gts [] = \<lparr>tp = 0, fp = 0, fn = int (length gts)\<rparr>"
  by (simp add: match_boxes_def match_boxes_loop_def)

text \<open>
  Under a positive threshold the detection-mode counts are conserved:
  \<open>0 \<le> tp \<le> min G P\<close>, \<open>fp = P - tp \<ge> 0\<close> and \<open>fn = G - tp \<ge> 0\<close>.
\<close>

lemma match_boxes_positive_threshold:
  assumes "0 < thr"
  shows "0 \<le> tp (match_boxes thr gts preds)
       \<and> tp (match_boxes thr gts preds) \<le> int (min (length gts) (length preds))
       \<and> fp (match_boxes thr gts preds) = int (length preds) - tp (match_boxes thr gts preds)
       \<and> fn (match_boxes thr gts preds) = int (length gts) - tp (match_boxes thr gts preds)
       \<and> 0 \<le> fp (match_boxes thr gts preds) \<and> 0 \<le> fn (match_boxes thr gts preds)"
proof -
  obtain c m where l: "match_boxes_loop thr gts preds = (c, m)"
    by (cases "match_boxes_loop thr gts preds")
  have inv: "match_inv (length gts) (c, m)"
    using match_boxes_loop_inv [OF assms, of gts preds] l by simp
  have tpc: "tp c = int (card m)" using inv by (simp add: match_inv_def)
  have le: "card m \<le> length gts" using card_matched_le [OF inv] by simp
  have tot: "tp c + fp c = int (length preds)"
    using match_boxes_fold_total [of thr gts "(\<lparr>tp = 0, fp = 0, fn = 0\<rparr>, {})" preds] l
    by (simp add: match_boxes_loop_def)
  have nn: "0 \<le> tp c \<and> 0 \<le> fp c"
    using foldl_inv [of "\<lambda>s. 0 \<le> tp (fst s) \<and> 0 \<le> fp (fst s)"
            "(\<lparr>tp = 0, fp = 0, fn = 0\<rparr>, {})" "match_boxes_step thr gts" preds]
          match_boxes_step_nonneg l
    by (simp add: match_boxes_loop_def)
  show ?thesis
    using tpc le tot nn by (simp add: match_boxes_def l)
qed

lemmas match_eval =
  match_boxes_def match_boxes_loop_def match_boxes_step_def
  match_classification_def match_classification_step_def label_at_def best_match_def
  bbox_iou_def union_area_def box_area_def inter_area_def Let_def enumerate_eq_zip

text \<open>
  C10. In the detection-mode matcher with a threshold above 0, after any number \<open>k\<close> of
  iterations of the prediction loop the running \<open>tp\<close> equals the size of the claimed-index
  set and the set does not contain \<open>None\<close>; so the returned \<open>fn\<close> equals \<open>G - tp\<close>.
\<close>

theorem match_boxes_tp_counts_claimed:
  "0 < iou_threshold \<Longrightarrow>
     (\<forall>k. tp (fst (match_boxes_loop iou_threshold gt_boxes (take k pred_boxes)))
            = int (card (snd (match_boxes_loop iou_threshold gt_boxes (take k pred_boxes))))
          \<and> None \<notin> snd (match_boxes_loop iou_threshold gt_boxes (take k pred_boxes)))
     \<and> fn (match_boxes iou_threshold gt_boxes pred_boxes)
         = int (length gt_boxes) - tp (match_boxes iou_threshold gt_boxes pred_boxes)"
proof -
  assume pos: "0 < iou_threshold"
  have inv: "match_inv (length gt_boxes) (match_boxes_loop iou_threshold gt_boxes ps)" for ps
    by (rule match_boxes_loop_inv [OF pos])
  have a: "tp (fst (match_boxes_loop iou_threshold gt_boxes ps))
            = int (card (snd (match_boxes_loop iou_threshold gt_boxes ps)))
          \<and> None \<notin> snd (match_boxes_loop iou_threshold gt_boxes ps)" for ps
    using inv [of ps] by (auto simp: match_inv_def)
  have b: "fn (match_boxes iou_threshold gt_boxes pred_boxes)
         = int (length gt_boxes) - tp (match_boxes iou_threshold gt_boxes pred_boxes)"
    using a [of pred_boxes] by (simp add: match_boxes_def case_prod_beta)
  show ?thesis using a b by blast
qed

theorem match_boxes_tp_counts_claimed_witness:
  "(0::rat) < 1 / 2
   \<and> match_boxes_loop (1 / 2) [\<lparr>x1 = 0, y1 = 0, x2 = 1, y2 = 1\<rparr>]
        (take 2 [\<lparr>x1 = 0, y1 = 0, x2 = 1, y2 = 1\<rparr>, \<lparr>x1 = 5, y1 = 5, x2 = 6, y2 = 6\<rparr>,
                 \<lparr>x1 = 0, y1 = 0, x2 = 1, y2 = 1\<rparr>])
      = (\<lparr>tp = 1, fp = 1, fn = 0\<rparr>, {Some 0})
   \<and> fn (match_boxes (1 / 2) [\<lparr>x1 = 0, y1 = 0, x2 = 1, y2 = 1\<rparr>]
        [\<lparr>x1 = 0, y1 = 0, x2 = 1, y2 = 1\<rparr>, \<lparr>x1 = 5, y1 = 5, x2 = 6, y2 = 6\<rparr>,
         \<lparr>x1 = 0, y1 = 0, x2 = 1, y2 = 1\<rparr>])
      = int (length [\<lparr>x1 = 0, y1 = 0, x2 = 1, y2 = 1\<rparr>])
        - tp (match_boxes (1 / 2) [\<lparr>x1 = 0, y1 = 0, x2 = 1, y2 = 1\<rparr>]
        [\<lparr>x1 = 0, y1 = 0, x2 = 1, y2 = 1\<rparr>, \<lparr>x1 = 5, y1 = 5, x2 = 6, y2 = 6\<rparr>,
         \<lparr>x1 = 0, y1 = 0, x2 = 1, y2 = 1\<rparr>])"
proof -
  have pos: "(0::rat) < 1 / 2" by simp
  have run: "match_boxes_loop (1 / 2) [\<lparr>x1 = 0, y1 = 0, x2 = 1, y2 = 1\<rparr>]
        (take 2 [\<lparr>x1 = 0, y1 = 0, x2 = 1, y2 = 1\<rparr>, \<lparr>x1 = 5, y1 = 5, x2 = 6, y2 = 6\<rparr>,
                 \<lparr>x1 = 0, y1 = 0, x2 = 1, y2 = 1\<rparr>])
      = (\<lparr>tp = 1, fp = 1, fn = 0\<rparr>, {Some 0})"
    by (simp add: match_eval)
  show ?thesis
    using match_boxes_tp_counts_claimed [OF pos, of "[\<lparr>x1 = 0, y1 = 0, x2 = 1, y2 = 1\<rparr>]"
            "[\<lparr>x1 = 0, y1 = 0, x2 = 1, y2 = 1\<rparr>, \<lparr>x1 = 5, y1 = 5, x2 = 6, y2 = 6\<rparr>,
              \<lparr>x1 = 0, y1 = 0, x2 = 1, y2 = 1\<rparr>]"] pos run
    by blast
qed

text \<open>
  C1 (evaluated at a threshold of 0). With no ground truth and one prediction the inner
  loop leaves \<open>best_iou = 0\<close> and \<open>best_match_idx = None\<close>; the test \<open>0 \<ge> 0\<close> passes,
  \<open>None\<close> is claimed and the prediction is counted as a true positive: \<open>tp = 1\<close> exceeds
  \<open>min G P = 0\<close>.
\<close>

theorem match_boxes_zero_threshold_tp_exceeds:
  "match_boxes 0 [] [\<lparr>x1 = 0, y1 = 0, x2 = 1, y2 = 1\<rparr>] = \<lparr>tp = 1, fp = 0, fn = - 1\<rparr>
   \<and> \<not> tp (match_boxes 0 [] [\<lparr>x1 = 0, y1 = 0, x2 = 1, y2 = 1\<rparr>])
         \<le> int (min (length ([] :: box list)) (length [\<lparr>x1 = 0, y1 = 0, x2 = 1, y2 = 1\<rparr>]))"
  by (simp add: match_eval)

text \<open>
  C5 (evaluated at a threshold of 0). On an empty ground-truth list and two predictions
  the first prediction claims \<open>None\<close> and is a true positive, the second finds \<open>None\<close>
  claimed and is a false positive: the result is \<open>tp = 1, fp = 1, fn = -1\<close>, not
  \<open>tp = 0, fp = 2, fn = 0\<close>.
\<close>

theorem match_boxes_empty_gt_zero_threshold:
  "match_boxes 0 [] [\<lparr>x1 = 0, y1 = 0, x2 = 1, y2 = 1\<rparr>, \<lparr>x1 = 5, y1 = 5, x2 = 6, y2 = 6\<rparr>]
     = \<lparr>tp = 1, fp = 1, fn = - 1\<rparr>"
  by (simp add: match_eval)

text \<open>
  C6 (evaluated at a threshold of 0). With one ground-truth box, one prediction on it and
  one prediction far from it, the claimed set becomes \<open>{0, None}\<close> and the returned
  \<open>fn\<close> is \<open>1 - 2 = -1\<close>. On the same kind of input the classification-mode matcher
  indexes the labels with \<open>None\<close> and raises instead of returning counts.
\<close>

theorem matcher_counts_negative_zero_threshold:
  "match_boxes 0 [\<lparr>x1 = 0, y1 = 0, x2 = 1, y2 = 1\<rparr>]
     [\<lparr>x1 = 0, y1 = 0, x2 = 1, y2 = 1\<rparr>, \<lparr>x1 = 5, y1 = 5, x2 = 6, y2 = 6\<rparr>]
     = \<lparr>tp = 2, fp = 0, fn = - 1\<rparr>
   \<and> match_classification 0 [\<lparr>x1 = 0, y1 = 0, x2 = 1, y2 = 1\<rparr>] [3]
       [\<lparr>x1 = 5, y1 = 5, x2 = 6, y2 = 6\<rparr>] [3] = Inl TypeError"
  by (simp add: match_eval)

section \<open>Properties of the classification-mode matcher\<close>

lemma label_at_Some: "j < length gls \<Longrightarrow> label_at gls (Some j) = Inr (gls ! j)"
  by (simp add: label_at_def)

lemma match_classification_step_total:
  assumes "0 < thr"
  shows "\<exists>s'. match_classification_step thr gbs gls s p = Inr s'"
proof -
  obtain c m where s: "s = (c, m)" by (cases s)
  obtain pb pl where p: "p = (pb, pl)" by (cases p)
  obtain b i where bm: "best_match pb (map fst (zip gbs gls)) = (b, i)"
    by (cases "best_match pb (map fst (zip gbs gls))")
  from best_match_cases [OF bm] assms
  have "thr \<le> b \<Longrightarrow> \<exists>j. i = Some j \<and> j < length gls" by auto
  then show ?thesis
    by (auto simp: match_classification_step_def s p bm label_at_Some)
qed

lemma fold_err_total:
  "(\<And>s x. \<exists>s'. f s x = Inr s') \<Longrightarrow> \<exists>s'. fold_err f s xs = Inr s'"
proof (induction xs arbitrary: s)
  case Nil
  then show ?case by simp
next
  case (Cons x xs)
  obtain s1 where "f s x = Inr s1" using Cons.prems by blast
  moreover obtain s2 where "fold_err f s1 xs = Inr s2" using Cons.IH Cons.prems by blast
  ultimately show ?case by simp
qed

lemma match_classification_total:
  assumes "0 < thr"
  shows "\<exists>r. match_classification thr gbs gls pbs pls = Inr r"
proof -
  obtain s' where "fold_err (match_classification_step thr gbs gls)
             (\<lparr>tp = 0, fp = 0, fn = 0\<rparr>, {}) (zip pbs pls) = Inr s'"
    using fold_err_total [of "match_classification_step thr gbs gls"]
          match_classification_step_total [OF assms] by blast
  then show ?thesis by (cases s') (simp add: match_classification_def)
qed

lemma match_classification_fn_formula:
  "match_classification thr gbs gls pbs pls = Inr r \<Longrightarrow> fn r = int (length gls) - tp r"
  by (auto simp: match_classification_def split: sum.splits)

lemma zip_take_shorter:
  "zip (take (min (length xs) (length ys)) xs) (take (min (length xs) (length ys)) ys) = zip xs ys"
  by (simp add: take_zip [symmetric])

lemma zip_take_left: "zip (take (length ys) xs) ys = zip xs ys"
  by (metis take_zip length_zip min.cobounded2 take_all zip_take_shorter min.commute
        take_all_iff order_refl)

text \<open>
  What holds of the classification-mode matcher: whenever it returns, its \<open>fn\<close> is the
  number of ground-truth labels minus \<open>tp\<close>, also when a claimed index was misclassified;
  and with a threshold above 0 it returns on every input.
\<close>

lemma match_classification_fn_returned:
  "(\<forall>r. match_classification iou_threshold gt_boxes gt_labels pred_boxes pred_labels = Inr r
        \<longrightarrow> fn r = int (length gt_labels) - tp r)
   \<and> (0 < iou_threshold
        \<longrightarrow> (\<exists>r. match_classification iou_threshold gt_boxes gt_labels pred_boxes pred_labels
                   = Inr r))"
  using match_classification_fn_formula match_classification_total by blast

lemma match_classification_fn_returned_example:
  "(0::rat) < 1 / 2
   \<and> match_classification (1 / 2)
        [\<lparr>x1 = 0, y1 = 0, x2 = 1, y2 = 1\<rparr>, \<lparr>x1 = 5, y1 = 5, x2 = 6, y2 = 6\<rparr>] [0, 1]
        [\<lparr>x1 = 0, y1 = 0, x2 = 1, y2 = 1\<rparr>, \<lparr>x1 = 5, y1 = 5, x2 = 6, y2 = 6\<rparr>] [0, 7]
      = Inr \<lparr>tp = 1, fp = 1, fn = 1\<rparr>
   \<and> fn \<lparr>tp = 1, fp = 1, fn = 1\<rparr> = int (length [0, 1 :: int]) - tp \<lparr>tp = 1, fp = 1, fn = 1\<rparr>"
proof -
  have run: "match_classification (1 / 2)
        [\<lparr>x1 = 0, y1 = 0, x2 = 1, y2 = 1\<rparr>, \<lparr>x1 = 5, y1 = 5, x2 = 6, y2 = 6\<rparr>] [0, 1]
        [\<lparr>x1 = 0, y1 = 0, x2 = 1, y2 = 1\<rparr>, \<lparr>x1 = 5, y1 = 5, x2 = 6, y2 = 6\<rparr>] [0, 7]
      = Inr \<lparr>tp = 1, fp = 1, fn = 1\<rparr>"
    by (simp add: match_eval)
  have pos: "(0::rat) < 1 / 2" by simp
  from match_classification_fn_returned [of "1 / 2"
        "[\<lparr>x1 = 0, y1 = 0, x2 = 1, y2 = 1\<rparr>, \<lparr>x1 = 5, y1 = 5, x2 = 6, y2 = 6\<rparr>]" "[0, 1]"
        "[\<lparr>x1 = 0, y1 = 0, x2 = 1, y2 = 1\<rparr>, \<lparr>x1 = 5, y1 = 5, x2 = 6, y2 = 6\<rparr>]" "[0, 7]"] run
  have "fn \<lparr>tp = 1, fp = 1, fn = 1\<rparr> = int (length [0, 1 :: int]) - tp \<lparr>tp = 1, fp = 1, fn = 1\<rparr>"
    by blast
  with run pos show ?thesis by blast
qed

text \<open>
  C2 (evaluated at a threshold of 0). With no ground truth and one labelled prediction the
  inner loop leaves \<open>best_iou = 0\<close> and \<open>best_match_idx = None\<close>; the test of line 133
  passes and line 134 reads \<^verbatim>\<open>gt_labels[None]\<close>: the matcher raises TypeError and
  returns no counts, so there is no \<open>fn\<close> equal to the number of ground-truth labels minus
  \<open>tp\<close>.
\<close>

theorem match_classification_no_result_zero_threshold:
  "match_classification 0 [] [] [\<lparr>x1 = 0, y1 = 0, x2 = 1, y2 = 1\<rparr>] [3] = Inl TypeError
   \<and> \<not> (\<exists>r. match_classification 0 [] [] [\<lparr>x1 = 0, y1 = 0, x2 = 1, y2 = 1\<rparr>] [3] = Inr r
              \<and> fn r = int (length ([] :: int list)) - tp r)"
  by (simp add: match_eval)

text \<open>
  C3, as stated, fails: with two predicted boxes and one predicted label the matcher
  raises nothing and returns the counts of the first pair alone.
\<close>

theorem match_classification_mismatch_returns:
  "match_classification (1 / 2) [\<lparr>x1 = 0, y1 = 0, x2 = 1, y2 = 1\<rparr>] [0]
     [\<lparr>x1 = 0, y1 = 0, x2 = 1, y2 = 1\<rparr>, \<lparr>x1 = 5, y1 = 5, x2 = 6, y2 = 6\<rparr>] [0]
   = Inr \<lparr>tp = 1, fp = 0, fn = 0\<rparr>"
  by (simp add: match_eval)

text \<open>
  C3, amended. A mismatch of lengths raises nothing by itself: the classification-mode
  matcher behaves exactly as on the predicted lists cut to the shorter of the two and on
  the ground-truth boxes cut to the number of labels (labels beyond the boxes still count
  in \<open>fn\<close>); and the per-image split pairs boxes and labels up to the shorter length.
\<close>

theorem match_classification_truncates:
  "match_classification thr gbs gls pbs pls
     = match_classification thr (take (length gls) gbs) gls
         (take (min (length pbs) (length pls)) pbs) (take (min (length pbs) (length pls)) pls)
   \<and> split_entities box label
       = split_entities (take (min (length box) (length label)) box)
           (take (min (length box) (length label)) label)"
proof -
  have "match_classification_step thr (take (length gls) gbs) gls
          = match_classification_step thr gbs gls"
    by (intro ext) (simp add: match_classification_step_def zip_take_left)
  then show ?thesis
    by (simp add: match_classification_def split_entities_def zip_take_shorter)
qed

section \<open>Properties of the confusion accumulator\<close>

lemma sum_list_indicator:
  "distinct ls \<Longrightarrow> (\<Sum>l\<leftarrow>ls. if y = l then 1 else 0) = (if y \<in> set ls then 1 else (0::int))"
  by (induction ls) auto

lemma sum_count_distinct:
  assumes "distinct ls"
  shows "(\<forall>x\<in>set xs. f x \<in> set ls) \<Longrightarrow>
         (\<Sum>l\<leftarrow>ls. int (length (filter (\<lambda>x. f x = l) xs))) = int (length xs)"
proof (induction xs)
  case Nil
  then show ?case by simp
next
  case (Cons x xs)
  have "(\<Sum>l\<leftarrow>ls. int (length (filter (\<lambda>x. f x = l) (x # xs))))
        = (\<Sum>l\<leftarrow>ls. (if f x = l then 1 else 0) + int (length (filter (\<lambda>x. f x = l) xs)))"
    by (intro arg_cong [where f = sum_list] map_cong) auto
  also have "\<dots> = (\<Sum>l\<leftarrow>ls. if f x = l then 1 else 0)
                   + (\<Sum>l\<leftarrow>ls. int (length (filter (\<lambda>x. f x = l) xs)))"
    by (simp add: sum_list_addf)
  also have "\<dots> = 1 + int (length xs)"
    using Cons sum_list_indicator [OF assms, of "f x"] by simp
  finally show ?case by simp
qed

lemma sum_list_np_sub:
  "length xs = length ys \<Longrightarrow> sum_list (np_sub xs ys) = sum_list xs - sum_list ys"
  by (induction xs ys rule: list_induct2) (simp_all add: np_sub_def)

lemma pair_count_fst:
  "pair_count ps t p = int (length (filter (\<lambda>x. fst x = t) (filter (\<lambda>x. snd x = p) ps)))"
  unfolding pair_count_def
  by (simp add: prod_eq_iff conj_commute cong: conj_cong)

lemma pair_count_snd:
  "pair_count ps t p = int (length (filter (\<lambda>x. snd x = p) (filter (\<lambda>x. fst x = t) ps)))"
  unfolding pair_count_def
  by (simp add: prod_eq_iff conj_commute cong: conj_cong)

lemma column_total:
  assumes "distinct ls" "\<forall>x\<in>set ps. fst x \<in> set ls"
  shows "(\<Sum>t\<leftarrow>ls. pair_count ps t p) = int (length (filter (\<lambda>x. snd x = p) ps))"
  unfolding pair_count_fst
  using sum_count_distinct [OF assms(1), of "filter (\<lambda>x. snd x = p) ps" fst] assms(2) by simp

lemma row_total:
  assumes "distinct ls" "\<forall>x\<in>set ps. snd x \<in> set ls"
  shows "(\<Sum>p\<leftarrow>ls. pair_count ps t p) = int (length (filter (\<lambda>x. fst x = t) ps))"
  unfolding pair_count_snd
  using sum_count_distinct [OF assms(1), of "filter (\<lambda>x. fst x = t) ps" snd] assms(2) by simp

lemma grand_total_columns:
  assumes "distinct ls" "\<forall>x\<in>set ps. fst x \<in> set ls" "\<forall>x\<in>set ps. snd x \<in> set ls"
  shows "(\<Sum>p\<leftarrow>ls. \<Sum>t\<leftarrow>ls. pair_count ps t p) = int (length ps)"
  using sum_count_distinct [OF assms(1), of ps snd] assms(3)
  by (simp add: column_total [OF assms(1,2)])

lemma grand_total_rows:
  assumes "distinct ls" "\<forall>x\<in>set ps. fst x \<in> set ls" "\<forall>x\<in>set ps. snd x \<in> set ls"
  shows "(\<Sum>t\<leftarrow>ls. \<Sum>p\<leftarrow>ls. pair_count ps t p) = int (length ps)"
  using sum_count_distinct [OF assms(1), of ps fst] assms(2)
  by (simp add: row_total [OF assms(1,3)])

lemma sum_axis1_count_matrix:
  "sum_list (np_sum_axis1 (count_matrix ls ps)) = (\<Sum>t\<leftarrow>ls. \<Sum>p\<leftarrow>ls. pair_count ps t p)"
  by (simp add: np_sum_axis1_def count_matrix_def comp_def)

lemma map_index_nth: "map (\<lambda>j. g (ls ! j)) [0..<length ls] = map g ls"
  by (rule nth_equalityI) simp_all

lemma sum_axis0_count_matrix:
  "sum_list (np_sum_axis0 (count_matrix ls ps)) = (\<Sum>p\<leftarrow>ls. \<Sum>t\<leftarrow>ls. pair_count ps t p)"
proof -
  have "np_sum_axis0 (count_matrix ls ps)
        = map (\<lambda>j. (\<Sum>t\<leftarrow>ls. pair_count ps t (ls ! j))) [0..<length ls]"
    unfolding np_sum_axis0_def count_matrix_def
    by (auto simp: comp_def intro!: arg_cong [where f = sum_list])
  also have "\<dots> = map (\<lambda>p. \<Sum>t\<leftarrow>ls. pair_count ps t p) ls"
    by (rule map_index_nth)
  finally show ?thesis by simp
qed

lemma length_diag_count_matrix:
  "length (np_diag (count_matrix ls ps)) = length ls"
  "length (np_sum_axis0 (count_matrix ls ps)) = length ls"
  "length (np_sum_axis1 (count_matrix ls ps)) = length ls"
  by (simp_all add: np_diag_def np_sum_axis0_def np_sum_axis1_def count_matrix_def)

lemma confusion_matrix_eq:
  "length yt = length yp \<Longrightarrow>
     confusion_matrix yt yp = Inr (count_matrix (unique_labels yt yp) (zip yt yp))"
  by (simp add: confusion_matrix_def count_matrix_def pair_count_def Let_def)

lemma unique_labels_props:
  "distinct (unique_labels yt yp)"
  "\<forall>x\<in>set (zip yt yp). fst x \<in> set (unique_labels yt yp)"
  "\<forall>x\<in>set (zip yt yp). snd x \<in> set (unique_labels yt yp)"
  by (auto simp: unique_labels_def dest: set_zip_leftD set_zip_rightD)

text \<open>
  C9. For a confusion buffer of \<open>N\<close> pairs (two lists of length \<open>N\<close>), the aggregate
  counts derived from the confusion matrix satisfy \<open>TP + FP = N\<close> and \<open>TP + FN = N\<close>.
\<close>

theorem confusion_totals:
  assumes "length yt = length yp"
  shows "\<exists>total_TP total_FP total_FN.
           get_classification_confusion_matrix yt yp = Inr (total_TP, total_FP, total_FN)
           \<and> total_TP + total_FP = int (length yt)
           \<and> total_TP + total_FN = int (length yt)"
proof -
  let ?ls = "unique_labels yt yp" and ?ps = "zip yt yp"
  let ?cm = "count_matrix ?ls ?ps"
  have n: "int (length ?ps) = int (length yt)" using assms by simp
  have cols: "sum_list (np_sum_axis0 ?cm) = int (length yt)"
    using grand_total_columns [OF unique_labels_props] n
    by (simp add: sum_axis0_count_matrix)
  have rows: "sum_list (np_sum_axis1 ?cm) = int (length yt)"
    using grand_total_rows [OF unique_labels_props] n
    by (simp add: sum_axis1_count_matrix)
  have fp: "sum_list (np_sub (np_sum_axis0 ?cm) (np_diag ?cm))
              = sum_list (np_sum_axis0 ?cm) - sum_list (np_diag ?cm)"
    by (rule sum_list_np_sub) (simp add: length_diag_count_matrix)
  have fn: "sum_list (np_sub (np_sum_axis1 ?cm) (np_diag ?cm))
              = sum_list (np_sum_axis1 ?cm) - sum_list (np_diag ?cm)"
    by (rule sum_list_np_sub) (simp add: length_diag_count_matrix)
  show ?thesis
    using cols rows fp fn
    by (simp add: get_classification_confusion_matrix_def confusion_matrix_eq [OF assms] Let_def)
qed

theorem confusion_totals_witness:
  "length [0, 1, 2, 2 :: int] = length [0, 1, 9, 2 :: int]
   \<and> get_classification_confusion_matrix [0, 1, 2, 2] [0, 1, 9, 2] = Inr (3, 1, 1)
   \<and> (3::int) + 1 = int (length [0, 1, 2, 2 :: int])"
proof -
  have len: "length [0, 1, 2, 2 :: int] = length [0, 1, 9, 2 :: int]" by simp
  have run: "get_classification_confusion_matrix [0, 1, 2, 2] [0, 1, 9, 2] = Inr (3, 1, 1)"
    by (simp add: get_classification_confusion_matrix_def confusion_matrix_def unique_labels_def
          np_diag_def np_sum_axis0_def np_sum_axis1_def np_sub_def Let_def upt_rec)
  from confusion_totals [OF len] run
  have "(3::int) + 1 = int (length [0, 1, 2, 2 :: int])" by simp
  with len run show ?thesis by blast
qed

section \<open>Properties of the cascade evaluator\<close>














end
